theory Spec2Isabelle
  imports Main "HOL-Library.Multiset"
begin

section \<open>FollowUp AI: schema triggers, approval handlers and dashboard statistics\<close>

text \<open>
  Identifiers are uuids, kept as strings. Timestamps and dates are integers (seconds and
  days on some fixed scale); only their order and equality matter below. A nullable SQL
  column, and a JavaScript value that may be \<open>null\<close> or \<open>undefined\<close>, is an
  \<open>option\<close>.
\<close>

type_synonym uuid = string
type_synonym timestamptz = int
type_synonym date = int

subsection \<open>Users and the default client folders trigger\<close>

text \<open>
  \<open>users.role\<close> is \<open>text NOT NULL CHECK (role IN ('super_admin', 'admin', 'manager',
  'team_member', 'client'))\<close>: the five values are the constructors.
\<close>

datatype user_role = super_admin | admin | manager | team_member | client

record users_row =
  user_id :: uuid
  user_organization_id :: "uuid option"
  user_role :: user_role

text \<open>
  The columns of \<open>client_folders\<close> that the trigger's \<open>INSERT\<close> lists. The others take
  their defaults (\<open>id\<close> a fresh uuid, \<open>parent_folder_id\<close> null, the two timestamps
  \<open>now()\<close>) and play no part here.
\<close>

record client_folders_row =
  cf_organization_id :: "uuid option"
  cf_client_id :: "uuid option"
  cf_name :: "string option"
  cf_folder_type :: "string option"
  cf_description :: "string option"
  cf_sort_order :: "int option"
  cf_created_by :: "uuid option"

datatype pg_error =
  not_null_violation | check_violation | unique_violation | foreign_key_violation

text \<open>PostgreSQL arrays are 1-based, and a subscript out of range reads as NULL.\<close>

definition pg_subscript :: "'a list \<Rightarrow> nat \<Rightarrow> 'a option" where
  "pg_subscript xs i = (if 1 \<le> i \<and> i \<le> length xs then Some (xs ! (i - 1)) else None)"

text \<open>\<open>a || b\<close> on text: NULL if either side is NULL.\<close>

definition pg_concat :: "string option \<Rightarrow> string option \<Rightarrow> string option" where
  "pg_concat a b = (case a of None \<Rightarrow> None | Some x \<Rightarrow> (case b of None \<Rightarrow> None | Some y \<Rightarrow> Some (x @ y)))"

definition folder_types :: "string list" where
  "folder_types = [''kyc'', ''legal'', ''finance'', ''hr'']"

definition folder_names :: "string list" where
  "folder_names = [''KYC Documents'', ''Legal Documents'', ''Finance Documents'', ''HR Documents'']"

text \<open>
  \<open>client_folders\<close>: \<open>name text NOT NULL\<close> and
  \<open>folder_type text CHECK (folder_type IN ('kyc', 'legal', 'finance', 'hr', 'project', 'custom'))\<close>
  (a CHECK passes on NULL).
\<close>

definition insert_client_folders ::
  "client_folders_row \<Rightarrow> client_folders_row list \<Rightarrow> pg_error + client_folders_row list" where
  "insert_client_folders r tbl =
     (if cf_name r = None then Inl not_null_violation
      else if (case cf_folder_type r of None \<Rightarrow> False
               | Some t \<Rightarrow> t \<notin> set [''kyc'', ''legal'', ''finance'', ''hr'', ''project'', ''custom''])
           then Inl check_violation
      else Inr (tbl @ [r]))"

text \<open>The \<open>VALUES\<close> row of the loop body at index \<open>i\<close>.\<close>

definition default_folder_row :: "users_row \<Rightarrow> nat \<Rightarrow> client_folders_row" where
  "default_folder_row new i =
     \<lparr> cf_organization_id = user_organization_id new,
       cf_client_id = Some (user_id new),
       cf_name = pg_subscript folder_names i,
       cf_folder_type = pg_subscript folder_types i,
       cf_description =
         pg_concat (pg_concat (Some ''Default '') (pg_subscript folder_names i)) (Some '' folder''),
       cf_sort_order = Some (int i),
       cf_created_by = Some (user_id new) \<rparr>"

text \<open>\<open>FOR i IN lo..hi LOOP INSERT ... END LOOP\<close>; an error in the body aborts the loop.\<close>

function folders_loop ::
  "users_row \<Rightarrow> nat \<Rightarrow> nat \<Rightarrow> client_folders_row list \<Rightarrow> pg_error + client_folders_row list" where
  "folders_loop new i hi tbl =
     (if i \<le> hi then
        (case insert_client_folders (default_folder_row new i) tbl of
           Inl e \<Rightarrow> Inl e
         | Inr tbl' \<Rightarrow> folders_loop new (i + 1) hi tbl')
      else Inr tbl)"
  by pat_completeness auto
termination
  by (relation "measure (\<lambda>(new, i, hi, tbl). Suc hi - i)") auto

declare folders_loop.simps [simp del]

text \<open>
  The trigger function, run \<open>AFTER INSERT ON users FOR EACH ROW\<close> with the inserted row
  as \<open>NEW\<close>; the state it changes is the \<open>client_folders\<close> table.
\<close>

definition create_default_client_folders ::
  "users_row \<Rightarrow> client_folders_row list \<Rightarrow> pg_error + client_folders_row list" where
  "create_default_client_folders new tbl =
     (if user_role new = client \<and> user_organization_id new \<noteq> None
      then folders_loop new 1 (length folder_types) tbl
      else Inr tbl)"

subsection \<open>Dashboard statistics\<close>

text \<open>
  Both queries of \<open>loadStats\<close> are \<open>select('status')\<close>: a loaded row carries its status
  and nothing else. \<open>data\<close> is null when the query failed.
\<close>

record status_row =
  status :: string

record Stats =
  pendingRequests :: nat
  completedRequests :: nat
  overdueItems :: nat
  activeTasks :: nat

text \<open>\<open>data?.filter(p).length || 0\<close>\<close>

definition filter_length_or_0 :: "(status_row \<Rightarrow> bool) \<Rightarrow> status_row list option \<Rightarrow> nat" where
  "filter_length_or_0 p data = (case data of None \<Rightarrow> 0 | Some rows \<Rightarrow> length (filter p rows))"

definition loadStats ::
  "users_row option \<Rightarrow> status_row list option \<Rightarrow> status_row list option \<Rightarrow> Stats \<Rightarrow> Stats" where
  "loadStats profile requestsData tasksData stats =
     (case profile of
        None \<Rightarrow> stats
      | Some p \<Rightarrow>
          (let isClient = (user_role p = client) in
           if isClient then
             (let pending = filter_length_or_0
                    (\<lambda>r. status r = ''sent'' \<or> status r = ''in_progress'') requestsData;
                  completed = filter_length_or_0 (\<lambda>r. status r = ''completed'') requestsData;
                  overdue = filter_length_or_0 (\<lambda>r. status r = ''in_progress'') requestsData;
                  active = filter_length_or_0 (\<lambda>t. status t = ''in_progress'') tasksData
              in \<lparr> pendingRequests = pending, completedRequests = completed,
                    overdueItems = overdue, activeTasks = active \<rparr>)
           else
             (let pending = filter_length_or_0
                    (\<lambda>r. status r = ''sent'' \<or> status r = ''in_progress'') requestsData;
                  completed = filter_length_or_0 (\<lambda>r. status r = ''completed'') requestsData;
                  overdue = filter_length_or_0 (\<lambda>r. status r = ''in_progress'') requestsData;
                  active = filter_length_or_0
                    (\<lambda>t. status t = ''in_progress'' \<or> status t = ''not_started'') tasksData
              in \<lparr> pendingRequests = pending, completedRequests = completed,
                    overdueItems = overdue, activeTasks = active \<rparr>)))"

subsection \<open>Approvals\<close>

text \<open>
  \<open>approvals.action\<close> is \<open>text CHECK (action IN ('approved', 'rejected', 're_request'))\<close>,
  null while the approval is pending.
\<close>

datatype approval_action = approved | rejected | re_request

record approvals_row =
  ap_id :: uuid
  ap_organization_id :: "uuid option"
  ap_approval_type :: string
  ap_related_id :: uuid
  ap_submitted_by :: "uuid option"
  ap_submitted_at :: "timestamptz option"
  ap_reviewer_id :: "uuid option"
  ap_reviewed_at :: "timestamptz option"
  ap_action :: "approval_action option"
  ap_remarks :: "string option"

text \<open>
  The migration has \<open>ALTER TABLE approvals ENABLE ROW LEVEL SECURITY\<close>, and the pages'
  client is created with the anon key, so a signed-in user acts as the role
  \<open>authenticated\<close> and is subject to it. An \<open>UPDATE\<close> then touches only the rows that a
  policy on \<open>approvals\<close> lets this user update; a row that no policy admits is passed
  over, and that is no error. The predicate \<open>updatable\<close> below says which rows the
  policies admit for the signed-in user.

  The migrations create no policy on \<open>approvals\<close> at all: as delivered, no row is
  admitted.
\<close>

definition approvals_updatable_as_delivered :: "approvals_row \<Rightarrow> bool" where
  "approvals_updatable_as_delivered r = False"

text \<open>
  \<open>supabase.from('approvals').update(values).eq('id', id)\<close>: every row with that id that
  the user may update.
\<close>

definition update_approvals_eq_id ::
  "(approvals_row \<Rightarrow> bool) \<Rightarrow> (approvals_row \<Rightarrow> approvals_row) \<Rightarrow> uuid
     \<Rightarrow> approvals_row list \<Rightarrow> approvals_row list" where
  "update_approvals_eq_id updatable values i tbl =
     map (\<lambda>r. if ap_id r = i \<and> updatable r then values r else r) tbl"

text \<open>
  What a handler of the Approvals page leaves behind: the text of the \<open>alert\<close> it raised
  (none when it returned quietly) and the \<open>approvals\<close> table. \<open>update_error\<close> says whether
  the database answered the update with an error (the request did not get through, or
  the new row was refused); rows that row-level security hides are not an error, they are
  the rows outside \<open>updatable\<close>. \<open>now\<close> is \<open>new Date()\<close>.
\<close>

definition handleApprove ::
  "(approvals_row \<Rightarrow> bool) \<Rightarrow> users_row option \<Rightarrow> uuid \<Rightarrow> timestamptz \<Rightarrow> bool
     \<Rightarrow> approvals_row list \<Rightarrow> string option \<times> approvals_row list" where
  "handleApprove updatable profile i now update_error tbl =
     (case profile of
        None \<Rightarrow> (None, tbl)
      | Some p \<Rightarrow>
          if update_error then (Some ''Failed to approve. Please try again.'', tbl)
          else (None,
                update_approvals_eq_id updatable
                  (\<lambda>r. r\<lparr> ap_action := Some approved, ap_reviewed_at := Some now,
                           ap_reviewer_id := Some (user_id p) \<rparr>) i tbl))"

text \<open>
  JavaScript truthiness of a string that may be undefined or null, and \<open>a || b\<close> on two
  such values.
\<close>

definition js_truthy :: "string option \<Rightarrow> bool" where
  "js_truthy s = (case s of None \<Rightarrow> False | Some x \<Rightarrow> x \<noteq> [])"

definition js_or :: "string option \<Rightarrow> string option \<Rightarrow> string option" where
  "js_or a b = (if js_truthy a then a else b)"

text \<open>
  \<open>prompt_answer\<close> is what the user types into \<open>prompt('Please provide rejection
  remarks:')\<close>, null when the dialog is cancelled; the dialog opens only when \<open>remarks\<close>
  is falsy.
\<close>

definition handleReject ::
  "(approvals_row \<Rightarrow> bool) \<Rightarrow> users_row option \<Rightarrow> uuid \<Rightarrow> string option \<Rightarrow> string option
     \<Rightarrow> timestamptz \<Rightarrow> bool \<Rightarrow> approvals_row list \<Rightarrow> string option \<times> approvals_row list" where
  "handleReject updatable profile i remarks prompt_answer now update_error tbl =
     (case profile of
        None \<Rightarrow> (None, tbl)
      | Some p \<Rightarrow>
          (let rejectionRemarks = js_or remarks prompt_answer in
           if \<not> js_truthy rejectionRemarks then (None, tbl)
           else if update_error then (Some ''Failed to reject. Please try again.'', tbl)
           else (None,
                 update_approvals_eq_id updatable
                   (\<lambda>r. r\<lparr> ap_action := Some rejected, ap_remarks := rejectionRemarks,
                            ap_reviewed_at := Some now, ap_reviewer_id := Some (user_id p) \<rparr>)
                   i tbl)))"

subsection \<open>The tasks table\<close>

text \<open>
  The columns of \<open>tasks\<close> (all but \<open>metadata\<close> and the two bookkeeping timestamps). A row
  handed to \<open>insert_tasks\<close> is the row after defaults were filled in. The ids of the rows
  that exist in \<open>organizations\<close>, \<open>templates\<close> and \<open>users\<close> are what the foreign keys
  are checked against.
\<close>

record tasks_row =
  tk_id :: uuid
  tk_organization_id :: "uuid option"
  tk_template_id :: "uuid option"
  tk_client_id :: "uuid option"
  tk_name :: "string option"
  tk_description :: "string option"
  tk_task_type :: "string option"
  tk_schedule_frequency :: "string option"
  tk_schedule_day_rule :: "string option"
  tk_schedule_start_date :: "date option"
  tk_schedule_end_date :: "date option"
  tk_next_run_date :: "date option"
  tk_task_manager_id :: "uuid option"
  tk_priority :: "string option"
  tk_status :: "string option"
  tk_due_date :: "date option"
  tk_completed_at :: "timestamptz option"
  tk_created_by :: "uuid option"

record referenced_ids =
  organizations_ids :: "uuid list"
  templates_ids :: "uuid list"
  users_ids :: "uuid list"

datatype tasks_violation =
  tasks_pkey | tasks_not_null | tasks_check | tasks_fkey

text \<open>\<open>CHECK (col IN (...))\<close>: satisfied by NULL.\<close>

definition check_in :: "string option \<Rightarrow> string list \<Rightarrow> bool" where
  "check_in v allowed = (case v of None \<Rightarrow> True | Some x \<Rightarrow> x \<in> set allowed)"

text \<open>\<open>REFERENCES t(id)\<close>: satisfied by NULL.\<close>

definition references_ok :: "uuid option \<Rightarrow> uuid list \<Rightarrow> bool" where
  "references_ok v ids = (case v of None \<Rightarrow> True | Some x \<Rightarrow> x \<in> set ids)"

definition tasks_constraint_violation ::
  "referenced_ids \<Rightarrow> tasks_row \<Rightarrow> tasks_row list \<Rightarrow> tasks_violation option" where
  "tasks_constraint_violation refs r tbl =
     (if tk_name r = None \<or> tk_task_type r = None then Some tasks_not_null
      else if \<not> (check_in (tk_task_type r) [''one_time'', ''recurring'']
                \<and> check_in (tk_schedule_frequency r)
                     [''daily'', ''weekly'', ''monthly'', ''quarterly'', ''yearly'', ''custom'']
                \<and> check_in (tk_priority r) [''low'', ''medium'', ''high'']
                \<and> check_in (tk_status r)
                     [''not_started'', ''in_progress'', ''waiting_on_client'', ''completed'',
                      ''overdue'', ''cancelled''])
           then Some tasks_check
      else if tk_id r \<in> set (map tk_id tbl) then Some tasks_pkey
      else if \<not> (references_ok (tk_organization_id r) (organizations_ids refs)
                \<and> references_ok (tk_template_id r) (templates_ids refs)
                \<and> references_ok (tk_client_id r) (users_ids refs)
                \<and> references_ok (tk_task_manager_id r) (users_ids refs)
                \<and> references_ok (tk_created_by r) (users_ids refs))
           then Some tasks_fkey
      else None)"

definition insert_tasks ::
  "referenced_ids \<Rightarrow> tasks_row \<Rightarrow> tasks_row list \<Rightarrow> tasks_violation + tasks_row list" where
  "insert_tasks refs r tbl =
     (case tasks_constraint_violation refs r tbl of
        Some e \<Rightarrow> Inl e
      | None \<Rightarrow> Inr (tbl @ [r]))"

text \<open>
  The invariant the data model asks of a task: a \<open>one_time\<close> task has no
  \<open>next_run_date\<close>.
\<close>

definition one_time_has_no_next_run :: "tasks_row \<Rightarrow> bool" where
  "one_time_has_no_next_run r =
     (if tk_task_type r = Some ''one_time'' then tk_next_run_date r = None else True)"

subsection \<open>Task occurrences\<close>

text \<open>
  The columns of \<open>task_occurrences\<close> (all but the generated \<open>id\<close> and \<open>created_at\<close>).
  \<open>occurrence_date\<close> and \<open>due_date\<close> are \<open>NOT NULL\<close>, so they are plain dates;
  \<open>task_id\<close> may be null.
\<close>

record task_occurrences_row =
  occ_task_id :: "uuid option"
  occ_occurrence_date :: date
  occ_due_date :: date
  occ_status :: "string option"
  occ_completed_at :: "timestamptz option"
  occ_notes :: "string option"

definition occurrence_key :: "task_occurrences_row \<Rightarrow> uuid option \<times> date" where
  "occurrence_key r = (occ_task_id r, occ_occurrence_date r)"

text \<open>
  \<open>UNIQUE(task_id, occurrence_date)\<close>: two rows conflict when both columns are equal and
  not null (SQL nulls are distinct from each other). The insert is a plain \<open>INSERT\<close>: a
  conflict is the error \<open>unique_violation\<close>.
\<close>

definition insert_task_occurrences ::
  "uuid list \<Rightarrow> task_occurrences_row \<Rightarrow> task_occurrences_row list
     \<Rightarrow> pg_error + task_occurrences_row list" where
  "insert_task_occurrences tasks_ids r tbl =
     (if \<not> check_in (occ_status r)
            [''pending'', ''in_progress'', ''completed'', ''overdue'', ''skipped'']
      then Inl check_violation
      else if occ_task_id r \<noteq> None \<and> occurrence_key r \<in> set (map occurrence_key tbl)
      then Inl unique_violation
      else if \<not> references_ok (occ_task_id r) tasks_ids then Inl foreign_key_violation
      else Inr (tbl @ [r]))"

text \<open>The table's uniqueness invariant, and the number of occurrences of a task on a date.\<close>

definition occurrences_unique :: "task_occurrences_row list \<Rightarrow> bool" where
  "occurrences_unique tbl = distinct (filter (\<lambda>k. fst k \<noteq> None) (map occurrence_key tbl))"



section \<open>The lifecycle core, modelled from the spec\<close>

text \<open>
  The sources hold the tables and the pages that list them; the schedule calculator, the
  item and request state machines and the reminder engine that the specification
  describes are not among them. Each is modelled here from the specification's words,
  and every such definition says so.
\<close>

subsection \<open>Schedule calculator\<close>

text \<open>
  Modelled from the spec: the recurrence descriptor of section 4.1 (task type, frequency,
  optional day-rule, start date, optional end date) and the calculator's one error. The
  two enumerations are those of the \<open>CHECK\<close> constraints on \<open>task_type\<close> and
  \<open>schedule_frequency\<close> of the \<open>templates\<close> and \<open>tasks\<close> tables.
\<close>

datatype task_type = one_time | recurring

datatype frequency = daily | weekly | monthly | quarterly | yearly | custom

record recurrence_rule =
  rule_task_type :: task_type
  rule_frequency :: "frequency option"
  rule_day_rule :: "string option"
  rule_start_date :: date
  rule_end_date :: "date option"

datatype schedule_error = InvalidScheduleError

text \<open>
  Modelled from the spec: \<open>next_occurrence(rule, after) -> Date | None\<close> of the Schedule
  Calculator (section 4.1), which is not among the sources. The date arithmetic of a
  frequency and its day-rule is not fixed by the specification (for \<open>custom\<close> it is a
  pluggable evaluator by design), so the computation of the candidate date is the
  parameter \<open>evaluate\<close>. The calculator returns None for a one-time rule without
  frequency, fails with \<open>InvalidScheduleError\<close> for any other non-recurring rule, for a
  recurring rule without frequency and when \<open>start_date\<close> is after \<open>end_date\<close>, returns
  None when the computed date falls after \<open>end_date\<close>, and enforces that the date it
  returns is strictly after \<open>after\<close> (a candidate that is not is an invalid schedule).
\<close>

definition next_occurrence ::
  "(recurrence_rule \<Rightarrow> date \<Rightarrow> date) \<Rightarrow> recurrence_rule \<Rightarrow> date \<Rightarrow> schedule_error + date option" where
  "next_occurrence evaluate rule after =
     (if rule_task_type rule = one_time \<and> rule_frequency rule = None then Inr None
      else if rule_task_type rule \<noteq> recurring then Inl InvalidScheduleError
      else if rule_frequency rule = None then Inl InvalidScheduleError
      else if (case rule_end_date rule of None \<Rightarrow> False | Some e \<Rightarrow> e < rule_start_date rule)
        then Inl InvalidScheduleError
      else
        (let next = evaluate rule after in
         if (case rule_end_date rule of None \<Rightarrow> False | Some e \<Rightarrow> e < next) then Inr None
         else if next \<le> after then Inl InvalidScheduleError
         else Inr (Some next)))"

subsection \<open>Reminders\<close>

text \<open>
  Modelled from the spec: the Reminder of section 3, with the columns of the \<open>reminders\<close>
  table that the engine reads and writes (\<open>related_id\<close>, \<open>channel\<close>, \<open>scheduled_at\<close>,
  \<open>sent_at\<close>, \<open>status\<close>; channel and status as their \<open>CHECK\<close> constraints list them)
  and the two counters \<open>retry_count\<close> and \<open>max_retries\<close>, which the Reminders page
  reads but the table under the sources does not declare.
\<close>

datatype channel = email | whatsapp | sms | voice | in_app

datatype reminder_status = pending | sent | failed | cancelled

record reminder =
  rm_related_id :: uuid
  rm_channel :: channel
  rm_scheduled_at :: timestamptz
  rm_sent_at :: "timestamptz option"
  rm_status :: reminder_status
  rm_retry_count :: nat
  rm_max_retries :: nat

text \<open>
  From the source, the Reminders page: the Retry button of a row is rendered when
  \<open>reminder.status === 'failed' && reminder.retry_count < (reminder.max_retries || 3)\<close>.
  The button has no handler; nothing in the sources dispatches a reminder.
\<close>

definition retry_offered :: "reminder \<Rightarrow> bool" where
  "retry_offered r =
     (rm_status r = failed
      \<and> rm_retry_count r < (if rm_max_retries r = 0 then 3 else rm_max_retries r))"

text \<open>
  Modelled from the spec: the result of \<open>dispatch(reminder) -> Result<Sent,
  DispatchFailure>\<close> (section 4.5), as the channel sender decides it.
\<close>

datatype dispatch_result = Sent | DispatchFailure

text \<open>
  Modelled from the spec: the Reminder and Retry Engine (sections 4.5 and 5), which is not
  among the sources. A sweep dispatches the reminders with \<open>scheduled_at \<le> now\<close> and
  \<open>status = pending\<close>; any other reminder is left alone. On success the status becomes
  \<open>sent\<close> and \<open>sent_at = now\<close>. On failure \<open>retry_count\<close> is incremented; if it is then
  below \<open>max_retries\<close> the reminder is rescheduled after the configured backoff and stays
  pending; if it equals \<open>max_retries\<close> the status becomes \<open>failed\<close>. \<open>backoff\<close> is the
  configured policy, from the new retry count to a delay.
\<close>

definition dispatch_due :: "timestamptz \<Rightarrow> reminder \<Rightarrow> bool" where
  "dispatch_due now r = (rm_status r = pending \<and> rm_scheduled_at r \<le> now)"

text \<open>
  Modelled from the spec: the dispatch contract of section 4.5, given the sender's result.
\<close>

definition record_dispatch ::
  "(nat \<Rightarrow> int) \<Rightarrow> timestamptz \<Rightarrow> dispatch_result \<Rightarrow> reminder \<Rightarrow> reminder" where
  "record_dispatch backoff now res r =
     (case res of
        Sent \<Rightarrow> r\<lparr> rm_status := sent, rm_sent_at := Some now \<rparr>
      | DispatchFailure \<Rightarrow>
          (let r' = r\<lparr> rm_retry_count := rm_retry_count r + 1 \<rparr> in
           if rm_retry_count r' < rm_max_retries r'
             then r'\<lparr> rm_scheduled_at := now + backoff (rm_retry_count r') \<rparr>
           else if rm_retry_count r' = rm_max_retries r' then r'\<lparr> rm_status := failed \<rparr>
           else r'))"

text \<open>
  Modelled from the spec: one sweep (section 5) over one reminder, with the time of the
  sweep and the outcome the channel sender would give. The result is the reminder
  afterwards and whether a dispatch was attempted.
\<close>

definition sweep_reminder ::
  "(nat \<Rightarrow> int) \<Rightarrow> timestamptz \<times> dispatch_result \<Rightarrow> reminder \<Rightarrow> reminder \<times> bool" where
  "sweep_reminder backoff step r =
     (if dispatch_due (fst step) r then (record_dispatch backoff (fst step) (snd step) r, True)
      else (r, False))"

text \<open>
  Modelled from the spec: a sequence of sweeps over one reminder. The result is the
  reminder afterwards and the number of dispatch attempts made.
\<close>

fun run_sweeps ::
  "(nat \<Rightarrow> int) \<Rightarrow> (timestamptz \<times> dispatch_result) list \<Rightarrow> reminder \<Rightarrow> reminder \<times> nat" where
  "run_sweeps backoff [] r = (r, 0)"
| "run_sweeps backoff (step # steps) r =
     (let (r', attempted) = sweep_reminder backoff step r;
          (r'', n) = run_sweeps backoff steps r'
      in (r'', (if attempted then 1 else 0) + n))"

subsection \<open>Checklist items and data requests\<close>

text \<open>
  Modelled from the spec: the Request Checklist Item of section 3, with the columns of
  \<open>request_checklist_items\<close> that the state machine reads and writes and the internal
  request-cycle counter of section 4.2. The statuses are those of the table's \<open>CHECK\<close>
  constraint (\<open>approved\<close> and \<open>rejected\<close> carry a prefix here, the two names being
  taken by the actions of an approval).
\<close>

datatype item_status =
  not_received | received | under_review | item_approved | item_rejected | re_requested

record checklist_item =
  item_id :: uuid
  is_mandatory :: bool
  item_status :: item_status
  submitted_at :: "timestamptz option"
  reviewed_at :: "timestamptz option"
  reviewed_by :: "uuid option"
  request_cycle :: nat

text \<open>
  Modelled from the spec: what the two actors of section 4.2 do (the client submits; a
  reviewer, named by id, does the rest) and the two errors of section 7 that a transition
  can fail with.
\<close>

datatype item_action =
  submit | begin_review uuid | approve uuid | reject uuid | re_request_by uuid

datatype transition_error = InvalidTransitionError | RequestClosedError

text \<open>
  Modelled from the spec: the Checklist Item State Machine (section 4.2 and the item's
  invariants in section 3), which is not among the sources. The client's submission takes
  \<open>not_received\<close> or \<open>re_requested\<close> to \<open>received\<close>; a reviewer takes \<open>received\<close> to
  \<open>under_review\<close>, and \<open>received\<close> or \<open>under_review\<close> to approved, rejected or
  \<open>re_requested\<close>. Approval and rejection set \<open>reviewed_by\<close> and \<open>reviewed_at\<close>; a
  re-request resets \<open>submitted_at\<close> to null and increments the request cycle. Everything
  else fails with \<open>InvalidTransitionError\<close>.
\<close>

definition reviewable :: "checklist_item \<Rightarrow> bool" where
  "reviewable it = (item_status it = received \<or> item_status it = under_review)"

text \<open>
  Modelled from the spec: one transition of an item at time \<open>now\<close> (section 4.2).
\<close>

fun item_transition ::
  "timestamptz \<Rightarrow> item_action \<Rightarrow> checklist_item \<Rightarrow> transition_error + checklist_item" where
  "item_transition now submit it =
     (if item_status it = not_received \<or> item_status it = re_requested
      then Inr (it\<lparr> item_status := received, submitted_at := Some now \<rparr>)
      else Inl InvalidTransitionError)"
| "item_transition now (begin_review rv) it =
     (if item_status it = received then Inr (it\<lparr> item_status := under_review \<rparr>)
      else Inl InvalidTransitionError)"
| "item_transition now (approve rv) it =
     (if reviewable it
      then Inr (it\<lparr> item_status := item_approved, reviewed_at := Some now, reviewed_by := Some rv \<rparr>)
      else Inl InvalidTransitionError)"
| "item_transition now (reject rv) it =
     (if reviewable it
      then Inr (it\<lparr> item_status := item_rejected, reviewed_at := Some now, reviewed_by := Some rv \<rparr>)
      else Inl InvalidTransitionError)"
| "item_transition now (re_request_by rv) it =
     (if reviewable it
      then Inr (it\<lparr> item_status := re_requested, submitted_at := None,
                      request_cycle := request_cycle it + 1 \<rparr>)
      else Inl InvalidTransitionError)"

text \<open>
  Modelled from the spec: a Data Request as the state machine of section 4.3 sees it: when
  it was sent (null while it is a draft), whether it was cancelled, its three channel
  flags (columns of \<open>data_requests\<close>) and its checklist items. The status is not stored;
  it is derived, with the values of the table's \<open>CHECK\<close> constraint (\<open>sent\<close> and
  \<open>cancelled\<close> carry a prefix here, the two names being taken by the reminder statuses).
\<close>

record data_request =
  dr_sent_at :: "timestamptz option"
  dr_cancelled :: bool
  dr_enable_email :: bool
  dr_enable_whatsapp :: bool
  dr_enable_voice :: bool
  dr_items :: "checklist_item list"

datatype request_status = draft | request_sent | in_progress | completed | request_cancelled

text \<open>
  Modelled from the spec: "every mandatory item is approved" (section 4.3); items that
  are not mandatory are not looked at.
\<close>

definition all_mandatory_approved :: "checklist_item list \<Rightarrow> bool" where
  "all_mandatory_approved items =
     list_all (\<lambda>it. if is_mandatory it then item_status it = item_approved else True) items"

text \<open>
  Modelled from the spec: the status derivation rule of the Request State Machine
  (section 4.3), which is not among the sources. Cancelled is an explicit terminal
  action; a request not yet sent is a draft; a sent request is completed when every
  mandatory item is approved; it is \<open>sent\<close> while no item has been received, and in
  progress otherwise (so a request with one item approved and one rejected is in
  progress, as the specification's second scenario has it).
\<close>

definition derive_status :: "data_request \<Rightarrow> request_status" where
  "derive_status r =
     (if dr_cancelled r then request_cancelled
      else if dr_sent_at r = None then draft
      else if all_mandatory_approved (dr_items r) then completed
      else if list_all (\<lambda>it. item_status it = not_received) (dr_items r) then request_sent
      else in_progress)"

text \<open>
  Modelled from the spec: an item transition applied to a request (sections 4.2 and 4.3).
  A cancelled request accepts none (\<open>RequestClosedError\<close>); an id that names no item of
  the request is an invalid transition; a rejected transition changes nothing.
\<close>

definition request_item_transition ::
  "timestamptz \<Rightarrow> item_action \<Rightarrow> uuid \<Rightarrow> data_request \<Rightarrow> transition_error + data_request" where
  "request_item_transition now act i r =
     (if dr_cancelled r then Inl RequestClosedError
      else
        (case find (\<lambda>it. item_id it = i) (dr_items r) of
           None \<Rightarrow> Inl InvalidTransitionError
         | Some it \<Rightarrow>
             (case item_transition now act it of
                Inl e \<Rightarrow> Inl e
              | Inr it' \<Rightarrow>
                  Inr (r\<lparr> dr_items := map (\<lambda>x. if item_id x = i then it' else x) (dr_items r) \<rparr>))))"

text \<open>
  Modelled from the spec: a sequence of item transitions, each with its time, action and
  item id. One that is rejected leaves the request as it was (section 7: reject the
  operation, do not mutate), and the sequence goes on.
\<close>

fun run_item_transitions ::
  "(timestamptz \<times> item_action \<times> uuid) list \<Rightarrow> data_request \<Rightarrow> data_request" where
  "run_item_transitions [] r = r"
| "run_item_transitions ((now, act, i) # evs) r =
     run_item_transitions evs
       (case request_item_transition now act i r of Inl e \<Rightarrow> r | Inr r' \<Rightarrow> r')"





text \<open>
  Modelled from the spec: an approval of an item as an event of the item state machine
  (when, by which reviewer, which item), and what an item shows of itself to the status
  derivation: its id, its mandatory flag and its status.
\<close>

definition approval :: "timestamptz \<times> uuid \<times> uuid \<Rightarrow> timestamptz \<times> item_action \<times> uuid" where
  "approval a = (fst a, approve (fst (snd a)), snd (snd a))"

definition item_view :: "checklist_item \<Rightarrow> uuid \<times> bool \<times> item_status" where
  "item_view it = (item_id it, is_mandatory it, item_status it)"

section \<open>Theorems\<close>

subsection \<open>Default client folders\<close>

lemma folder_types_length: "length folder_types = 4"
  by (simp add: folder_types_def)

text \<open>
  C10: inserting a user row with role \<open>client\<close> and a non-null organization makes the
  trigger add exactly four \<open>client_folders\<close> rows for that user, of types kyc, legal,
  finance and hr, with sort orders 1 to 4 and \<open>created_by\<close> the new user's id; any other
  role, or a null organization, adds no row. The trigger never fails.
\<close>

theorem create_default_client_folders_rows:
  "create_default_client_folders new tbl =
     Inr (tbl @
       (if user_role new = client \<and> user_organization_id new \<noteq> None then
          [\<lparr> cf_organization_id = user_organization_id new, cf_client_id = Some (user_id new),
             cf_name = Some ''KYC Documents'', cf_folder_type = Some ''kyc'',
             cf_description = Some ''Default KYC Documents folder'',
             cf_sort_order = Some 1, cf_created_by = Some (user_id new) \<rparr>,
           \<lparr> cf_organization_id = user_organization_id new, cf_client_id = Some (user_id new),
             cf_name = Some ''Legal Documents'', cf_folder_type = Some ''legal'',
             cf_description = Some ''Default Legal Documents folder'',
             cf_sort_order = Some 2, cf_created_by = Some (user_id new) \<rparr>,
           \<lparr> cf_organization_id = user_organization_id new, cf_client_id = Some (user_id new),
             cf_name = Some ''Finance Documents'', cf_folder_type = Some ''finance'',
             cf_description = Some ''Default Finance Documents folder'',
             cf_sort_order = Some 3, cf_created_by = Some (user_id new) \<rparr>,
           \<lparr> cf_organization_id = user_organization_id new, cf_client_id = Some (user_id new),
             cf_name = Some ''HR Documents'', cf_folder_type = Some ''hr'',
             cf_description = Some ''Default HR Documents folder'',
             cf_sort_order = Some 4, cf_created_by = Some (user_id new) \<rparr>]
        else []))"
proof (cases "user_role new = client \<and> user_organization_id new \<noteq> None")
  case False
  then show ?thesis
    by (auto simp: create_default_client_folders_def)
next
  case True
  have step: "\<And>i t. folders_loop new i 4 t =
      (if i \<le> 4 then
         (case insert_client_folders (default_folder_row new i) t of
            Inl e \<Rightarrow> Inl e | Inr t' \<Rightarrow> folders_loop new (i + 1) 4 t')
       else Inr t)"
    by (subst folders_loop.simps) simp
  have r1: "insert_client_folders (default_folder_row new 1) t = Inr (t @ [default_folder_row new 1])" for t
    by (simp add: insert_client_folders_def default_folder_row_def pg_subscript_def
        folder_names_def folder_types_def)
  have r2: "insert_client_folders (default_folder_row new 2) t = Inr (t @ [default_folder_row new 2])" for t
    by (simp add: insert_client_folders_def default_folder_row_def pg_subscript_def
        folder_names_def folder_types_def)
  have r3: "insert_client_folders (default_folder_row new 3) t = Inr (t @ [default_folder_row new 3])" for t
    by (simp add: insert_client_folders_def default_folder_row_def pg_subscript_def
        folder_names_def folder_types_def)
  have r4: "insert_client_folders (default_folder_row new 4) t = Inr (t @ [default_folder_row new 4])" for t
    by (simp add: insert_client_folders_def default_folder_row_def pg_subscript_def
        folder_names_def folder_types_def)
  have l5: "folders_loop new 5 4 t = Inr t" for t
    by (subst step) simp
  have l4: "folders_loop new 4 4 t = Inr (t @ [default_folder_row new 4])" for t
    by (subst step) (simp add: r4 l5)
  have l3: "folders_loop new 3 4 t = Inr (t @ [default_folder_row new 3, default_folder_row new 4])" for t
    by (subst step) (simp add: r3 l4)
  have l2: "folders_loop new 2 4 t =
      Inr (t @ [default_folder_row new 2, default_folder_row new 3, default_folder_row new 4])" for t
    by (subst step) (simp add: r2 l3)
  have l1: "folders_loop new 1 4 t =
      Inr (t @ [default_folder_row new 1, default_folder_row new 2, default_folder_row new 3,
                default_folder_row new 4])" for t
    by (subst step) (simp add: r1 l2 del: One_nat_def)
  have rows:
    "default_folder_row new 1 =
       \<lparr> cf_organization_id = user_organization_id new, cf_client_id = Some (user_id new),
         cf_name = Some ''KYC Documents'', cf_folder_type = Some ''kyc'',
         cf_description = Some ''Default KYC Documents folder'',
         cf_sort_order = Some 1, cf_created_by = Some (user_id new) \<rparr>"
    "default_folder_row new 2 =
       \<lparr> cf_organization_id = user_organization_id new, cf_client_id = Some (user_id new),
         cf_name = Some ''Legal Documents'', cf_folder_type = Some ''legal'',
         cf_description = Some ''Default Legal Documents folder'',
         cf_sort_order = Some 2, cf_created_by = Some (user_id new) \<rparr>"
    "default_folder_row new 3 =
       \<lparr> cf_organization_id = user_organization_id new, cf_client_id = Some (user_id new),
         cf_name = Some ''Finance Documents'', cf_folder_type = Some ''finance'',
         cf_description = Some ''Default Finance Documents folder'',
         cf_sort_order = Some 3, cf_created_by = Some (user_id new) \<rparr>"
    "default_folder_row new 4 =
       \<lparr> cf_organization_id = user_organization_id new, cf_client_id = Some (user_id new),
         cf_name = Some ''HR Documents'', cf_folder_type = Some ''hr'',
         cf_description = Some ''Default HR Documents folder'',
         cf_sort_order = Some 4, cf_created_by = Some (user_id new) \<rparr>"
    by (simp_all add: default_folder_row_def pg_subscript_def pg_concat_def
        folder_names_def folder_types_def)
  from True show ?thesis
    by (simp add: create_default_client_folders_def folder_types_length l1 rows del: One_nat_def)
qed

subsection \<open>Dashboard\<close>

text \<open>
  C9: in \<open>loadStats\<close> the overdue-items count is the number of loaded data requests whose
  status is \<open>in_progress\<close>, for every list of loaded requests and in both the client and
  the organization branch. The loaded rows carry no due date, so none is consulted.
\<close>

theorem loadStats_overdue_is_in_progress:
  "overdueItems (loadStats (Some p) (Some requests) tasksData stats) =
     length (filter (\<lambda>r. status r = ''in_progress'') requests)"
  by (simp add: loadStats_def filter_length_or_0_def Let_def)

subsection \<open>Approvals\<close>

lemma update_approvals_eq_id_as_delivered:
  "update_approvals_eq_id approvals_updatable_as_delivered values i tbl = tbl"
  by (induction tbl) (simp_all add: update_approvals_eq_id_def approvals_updatable_as_delivered_def)

lemma update_approvals_eq_id_twice:
  "update_approvals_eq_id (\<lambda>r. True) g i (update_approvals_eq_id (\<lambda>r. True) f i tbl) =
     update_approvals_eq_id (\<lambda>r. True) (\<lambda>r. if ap_id (f r) = i then g (f r) else f r) i tbl"
  by (induction tbl) (simp_all add: update_approvals_eq_id_def)

text \<open>
  C5 as stated fails on the program as delivered: \<open>handleApprove\<close> on an approval that
  was already rejected raises nothing, and on a pending approval it raises nothing and
  does not set the action either, no policy letting the user update the row.
\<close>

theorem handleApprove_already_reviewed_counterexample:
  "handleApprove approvals_updatable_as_delivered
     (Some \<lparr> user_id = ''u1'', user_organization_id = Some ''o1'', user_role = manager \<rparr>)
     ''a1'' 20 False
     [\<lparr> ap_id = ''a1'', ap_organization_id = Some ''o1'', ap_approval_type = ''document'',
        ap_related_id = ''d1'', ap_submitted_by = Some ''c1'', ap_submitted_at = Some 5,
        ap_reviewer_id = Some ''u2'', ap_reviewed_at = Some 10, ap_action = Some rejected,
        ap_remarks = Some ''blurred'' \<rparr>]
   = (None,
     [\<lparr> ap_id = ''a1'', ap_organization_id = Some ''o1'', ap_approval_type = ''document'',
        ap_related_id = ''d1'', ap_submitted_by = Some ''c1'', ap_submitted_at = Some 5,
        ap_reviewer_id = Some ''u2'', ap_reviewed_at = Some 10, ap_action = Some rejected,
        ap_remarks = Some ''blurred'' \<rparr>])
   \<and> handleApprove approvals_updatable_as_delivered
     (Some \<lparr> user_id = ''u1'', user_organization_id = Some ''o1'', user_role = manager \<rparr>)
     ''a1'' 20 False
     [\<lparr> ap_id = ''a1'', ap_organization_id = Some ''o1'', ap_approval_type = ''document'',
        ap_related_id = ''d1'', ap_submitted_by = Some ''c1'', ap_submitted_at = Some 5,
        ap_reviewer_id = None, ap_reviewed_at = None, ap_action = None,
        ap_remarks = None \<rparr>]
   = (None,
     [\<lparr> ap_id = ''a1'', ap_organization_id = Some ''o1'', ap_approval_type = ''document'',
        ap_related_id = ''d1'', ap_submitted_by = Some ''c1'', ap_submitted_at = Some 5,
        ap_reviewer_id = None, ap_reviewed_at = None, ap_action = None,
        ap_remarks = None \<rparr>])"
  by (simp add: handleApprove_def update_approvals_eq_id_def approvals_updatable_as_delivered_def)

text \<open>
  C5, amended: \<open>handleApprove\<close> itself never reads the approval's action. With a
  signed-in profile and no database error it raises nothing and sets \<open>action = approved\<close>,
  \<open>reviewed_at = now\<close> and \<open>reviewer_id\<close> the profile's id on exactly the rows with the
  given id that row-level security lets the user update, pending or not, and leaves every
  other row alone. As delivered, with no policy on \<open>approvals\<close>, that is no row: the call
  changes nothing and reports no error. Of two such calls on the same id neither raises
  an error; where the policies admit every row, the table is afterwards as if only the
  later call had run.
\<close>

theorem handleApprove_ignores_action:
  "handleApprove updatable (Some p) i now False tbl =
     (None, map (\<lambda>r. if ap_id r = i \<and> updatable r
                      then r\<lparr> ap_action := Some approved, ap_reviewed_at := Some now,
                               ap_reviewer_id := Some (user_id p) \<rparr>
                      else r) tbl)
   \<and> handleApprove approvals_updatable_as_delivered (Some p) i now False tbl = (None, tbl)
   \<and> fst (handleApprove updatable (Some q) i later False
            (snd (handleApprove updatable (Some p) i now False tbl))) = None
   \<and> handleApprove (\<lambda>r. True) (Some q) i later False
        (snd (handleApprove (\<lambda>r. True) (Some p) i now False tbl)) =
       handleApprove (\<lambda>r. True) (Some q) i later False tbl"
proof -
  have general: "handleApprove updatable (Some p) i now False tbl =
     (None, map (\<lambda>r. if ap_id r = i \<and> updatable r
                      then r\<lparr> ap_action := Some approved, ap_reviewed_at := Some now,
                               ap_reviewer_id := Some (user_id p) \<rparr>
                      else r) tbl)"
    by (simp add: handleApprove_def update_approvals_eq_id_def)
  have delivered: "handleApprove approvals_updatable_as_delivered (Some p) i now False tbl = (None, tbl)"
    by (simp add: handleApprove_def update_approvals_eq_id_as_delivered)
  have quiet: "fst (handleApprove updatable (Some q) i later False
            (snd (handleApprove updatable (Some p) i now False tbl))) = None"
    by (simp add: handleApprove_def)
  have last: "handleApprove (\<lambda>r. True) (Some q) i later False
        (snd (handleApprove (\<lambda>r. True) (Some p) i now False tbl)) =
       handleApprove (\<lambda>r. True) (Some q) i later False tbl"
    by (simp add: handleApprove_def update_approvals_eq_id_twice)
      (simp add: update_approvals_eq_id_def)
  from general delivered quiet last show ?thesis by blast
qed

text \<open>
  C7 as stated fails on the program as delivered: called with empty remarks and the
  dialog cancelled, \<open>handleReject\<close> returns without raising anything; called with
  non-empty remarks it raises nothing and does not set the action, no policy letting the
  user update the row.
\<close>

theorem handleReject_empty_remarks_counterexample:
  "handleReject approvals_updatable_as_delivered
     (Some \<lparr> user_id = ''u1'', user_organization_id = Some ''o1'', user_role = manager \<rparr>)
     ''a1'' (Some []) None 20 False
     [\<lparr> ap_id = ''a1'', ap_organization_id = Some ''o1'', ap_approval_type = ''document'',
        ap_related_id = ''d1'', ap_submitted_by = Some ''c1'', ap_submitted_at = Some 5,
        ap_reviewer_id = None, ap_reviewed_at = None, ap_action = None,
        ap_remarks = None \<rparr>]
   = (None,
     [\<lparr> ap_id = ''a1'', ap_organization_id = Some ''o1'', ap_approval_type = ''document'',
        ap_related_id = ''d1'', ap_submitted_by = Some ''c1'', ap_submitted_at = Some 5,
        ap_reviewer_id = None, ap_reviewed_at = None, ap_action = None,
        ap_remarks = None \<rparr>])
   \<and> handleReject approvals_updatable_as_delivered
     (Some \<lparr> user_id = ''u1'', user_organization_id = Some ''o1'', user_role = manager \<rparr>)
     ''a1'' (Some ''blurred'') None 20 False
     [\<lparr> ap_id = ''a1'', ap_organization_id = Some ''o1'', ap_approval_type = ''document'',
        ap_related_id = ''d1'', ap_submitted_by = Some ''c1'', ap_submitted_at = Some 5,
        ap_reviewer_id = None, ap_reviewed_at = None, ap_action = None,
        ap_remarks = None \<rparr>]
   = (None,
     [\<lparr> ap_id = ''a1'', ap_organization_id = Some ''o1'', ap_approval_type = ''document'',
        ap_related_id = ''d1'', ap_submitted_by = Some ''c1'', ap_submitted_at = Some 5,
        ap_reviewer_id = None, ap_reviewed_at = None, ap_action = None,
        ap_remarks = None \<rparr>])"
  by (simp add: handleReject_def update_approvals_eq_id_def js_or_def js_truthy_def
      approvals_updatable_as_delivered_def)

text \<open>
  C7, amended: the remarks \<open>handleReject\<close> works with are its argument or, when that is
  empty, the answer to its dialog. When these are empty too it returns without an error
  and leaves the table unchanged; when they are not, and the database raises no error, it
  sets \<open>action = rejected\<close>, the remarks, \<open>reviewed_at = now\<close> and \<open>reviewer_id\<close> the
  profile's id on exactly the rows with the given id that row-level security lets the
  user update. As delivered, with no policy on \<open>approvals\<close>, that is no row: the call
  changes nothing and reports no error, whatever the remarks.
\<close>

theorem handleReject_effective_remarks:
  "handleReject updatable (Some p) i remarks prompt_answer now False tbl =
     (if js_truthy remarks \<or> js_truthy prompt_answer
      then (None, map (\<lambda>r. if ap_id r = i \<and> updatable r
                            then r\<lparr> ap_action := Some rejected,
                                     ap_remarks := (if js_truthy remarks then remarks else prompt_answer),
                                     ap_reviewed_at := Some now,
                                     ap_reviewer_id := Some (user_id p) \<rparr>
                            else r) tbl)
      else (None, tbl))
   \<and> handleReject approvals_updatable_as_delivered (Some p) i remarks prompt_answer now False tbl
       = (None, tbl)"
proof -
  have general: "handleReject updatable (Some p) i remarks prompt_answer now False tbl =
     (if js_truthy remarks \<or> js_truthy prompt_answer
      then (None, map (\<lambda>r. if ap_id r = i \<and> updatable r
                            then r\<lparr> ap_action := Some rejected,
                                     ap_remarks := (if js_truthy remarks then remarks else prompt_answer),
                                     ap_reviewed_at := Some now,
                                     ap_reviewer_id := Some (user_id p) \<rparr>
                            else r) tbl)
      else (None, tbl))"
    by (simp add: handleReject_def update_approvals_eq_id_def js_or_def Let_def)
  have delivered:
    "handleReject approvals_updatable_as_delivered (Some p) i remarks prompt_answer now False tbl
       = (None, tbl)"
    by (simp add: handleReject_def update_approvals_eq_id_as_delivered Let_def)
  from general delivered show ?thesis by blast
qed

subsection \<open>Tasks\<close>

text \<open>
  C8 as stated fails: the table takes a \<open>one_time\<close> task that carries a
  \<open>next_run_date\<close>.
\<close>

theorem tasks_one_time_next_run_date_counterexample:
  "insert_tasks \<lparr> organizations_ids = [], templates_ids = [], users_ids = [] \<rparr>
     \<lparr> tk_id = ''t1'', tk_organization_id = None, tk_template_id = None, tk_client_id = None,
       tk_name = Some ''KYC refresh'', tk_description = None, tk_task_type = Some ''one_time'',
       tk_schedule_frequency = None, tk_schedule_day_rule = None,
       tk_schedule_start_date = None, tk_schedule_end_date = None,
       tk_next_run_date = Some 19800, tk_task_manager_id = None,
       tk_priority = Some ''medium'', tk_status = Some ''not_started'', tk_due_date = None,
       tk_completed_at = None, tk_created_by = None \<rparr> []
   = Inr [\<lparr> tk_id = ''t1'', tk_organization_id = None, tk_template_id = None, tk_client_id = None,
       tk_name = Some ''KYC refresh'', tk_description = None, tk_task_type = Some ''one_time'',
       tk_schedule_frequency = None, tk_schedule_day_rule = None,
       tk_schedule_start_date = None, tk_schedule_end_date = None,
       tk_next_run_date = Some 19800, tk_task_manager_id = None,
       tk_priority = Some ''medium'', tk_status = Some ''not_started'', tk_due_date = None,
       tk_completed_at = None, tk_created_by = None \<rparr>]
   \<and> \<not> one_time_has_no_next_run
       \<lparr> tk_id = ''t1'', tk_organization_id = None, tk_template_id = None, tk_client_id = None,
       tk_name = Some ''KYC refresh'', tk_description = None, tk_task_type = Some ''one_time'',
       tk_schedule_frequency = None, tk_schedule_day_rule = None,
       tk_schedule_start_date = None, tk_schedule_end_date = None,
       tk_next_run_date = Some 19800, tk_task_manager_id = None,
       tk_priority = Some ''medium'', tk_status = Some ''not_started'', tk_due_date = None,
       tk_completed_at = None, tk_created_by = None \<rparr>"
  by (simp add: insert_tasks_def tasks_constraint_violation_def check_in_def references_ok_def
      one_time_has_no_next_run_def)

text \<open>
  C8, amended: the \<open>tasks\<close> table puts no constraint on \<open>next_run_date\<close>. Whether a row
  is accepted does not depend on its \<open>next_run_date\<close>, and an accepted row is stored as
  given; so a \<open>one_time\<close> task has a null \<open>next_run_date\<close> in the table exactly when
  it was written with one.
\<close>

theorem insert_tasks_ignores_next_run_date:
  "insert_tasks refs (r\<lparr> tk_next_run_date := d \<rparr>) tbl =
     (case insert_tasks refs r tbl of
        Inl e \<Rightarrow> Inl e
      | Inr t \<Rightarrow> Inr (tbl @ [r\<lparr> tk_next_run_date := d \<rparr>]))"
  by (simp add: insert_tasks_def tasks_constraint_violation_def split: option.splits)

subsection \<open>Task occurrences\<close>


lemma count_zero_of_absent:
  "k \<notin> set (map f xs) \<Longrightarrow> length (filter (\<lambda>x. f x = k) xs) = 0"
  by (auto simp: filter_empty_conv)

lemma insert_task_occurrences_unique:
  assumes "occurrences_unique tbl" and "insert_task_occurrences tasks_ids r tbl = Inr tbl'"
  shows "occurrences_unique tbl'"
  using assms
  by (auto simp: insert_task_occurrences_def occurrences_unique_def occurrence_key_def
      split: if_splits)



subsection \<open>Schedule calculator\<close>

text \<open>
  C2: for a rule with an \<open>end_date\<close> and any reference date, \<open>next_occurrence\<close> never
  returns a date after the \<open>end_date\<close>; for a valid recurring rule it returns None
  whenever the computed next date falls after the \<open>end_date\<close>; and, the computed date
  not decreasing as the reference date grows, once it has returned None it returns None
  for every later reference date.
\<close>

theorem next_occurrence_within_end_date:
  assumes "rule_end_date rule = Some e"
  shows "(\<forall>d. next_occurrence evaluate rule after = Inr (Some d) \<longrightarrow> d \<le> e)
       \<and> (rule_task_type rule = recurring \<and> rule_frequency rule \<noteq> None
            \<and> rule_start_date rule \<le> e \<and> e < evaluate rule after
          \<longrightarrow> next_occurrence evaluate rule after = Inr None)
       \<and> (next_occurrence evaluate rule after = Inr None \<and> after \<le> later
            \<and> evaluate rule after \<le> evaluate rule later
          \<longrightarrow> next_occurrence evaluate rule later = Inr None)"
  using assms
  by (auto simp: next_occurrence_def Let_def split: if_splits)

theorem next_occurrence_within_end_date_witness:
  "next_occurrence (\<lambda>r a. a + 30)
     \<lparr> rule_task_type = recurring, rule_frequency = Some monthly, rule_day_rule = None,
       rule_start_date = 19724, rule_end_date = Some 19800 \<rparr> 19755 = Inr (Some 19785)
   \<and> (19785 :: int) \<le> 19800
   \<and> next_occurrence (\<lambda>r a. a + 30)
     \<lparr> rule_task_type = recurring, rule_frequency = Some monthly, rule_day_rule = None,
       rule_start_date = 19724, rule_end_date = Some 19800 \<rparr> 19785 = Inr None"
  using next_occurrence_within_end_date
    [of "\<lparr> rule_task_type = recurring, rule_frequency = Some monthly, rule_day_rule = None,
          rule_start_date = 19724, rule_end_date = Some 19800 \<rparr>" 19800 "\<lambda>r a. a + 30" 19755 19785]
    next_occurrence_within_end_date
    [of "\<lparr> rule_task_type = recurring, rule_frequency = Some monthly, rule_day_rule = None,
          rule_start_date = 19724, rule_end_date = Some 19800 \<rparr>" 19800 "\<lambda>r a. a + 30" 19785 19790]
  by (simp add: next_occurrence_def)

subsection \<open>Reminders\<close>

lemma sweep_reminder_bounded:
  assumes "rm_retry_count r \<le> rm_max_retries r"
    and "rm_status r = pending \<longrightarrow> rm_retry_count r < rm_max_retries r"
  shows "rm_max_retries (fst (sweep_reminder backoff step r)) = rm_max_retries r"
    and "rm_retry_count r \<le> rm_retry_count (fst (sweep_reminder backoff step r))"
    and "rm_retry_count (fst (sweep_reminder backoff step r)) \<le> rm_max_retries r"
    and "rm_status (fst (sweep_reminder backoff step r)) = pending
           \<longrightarrow> rm_retry_count (fst (sweep_reminder backoff step r)) < rm_max_retries r"
  using assms
  by (auto simp: sweep_reminder_def record_dispatch_def dispatch_due_def Let_def
      split: dispatch_result.splits)

lemma run_sweeps_bounded:
  assumes "rm_retry_count r \<le> rm_max_retries r"
    and "rm_status r = pending \<longrightarrow> rm_retry_count r < rm_max_retries r"
  shows "rm_max_retries (fst (run_sweeps backoff steps r)) = rm_max_retries r
       \<and> rm_retry_count r \<le> rm_retry_count (fst (run_sweeps backoff steps r))
       \<and> rm_retry_count (fst (run_sweeps backoff steps r)) \<le> rm_max_retries r
       \<and> (rm_status (fst (run_sweeps backoff steps r)) = pending
             \<longrightarrow> rm_retry_count (fst (run_sweeps backoff steps r)) < rm_max_retries r)"
  using assms
proof (induction steps arbitrary: r)
  case Nil
  then show ?case by simp
next
  case (Cons step steps)
  let ?r1 = "fst (sweep_reminder backoff step r)"
  note b = sweep_reminder_bounded [OF Cons.prems, of backoff step]
  have "rm_retry_count ?r1 \<le> rm_max_retries ?r1"
    and "rm_status ?r1 = pending \<longrightarrow> rm_retry_count ?r1 < rm_max_retries ?r1"
    using b by simp_all
  from Cons.IH [OF this] b
  have "rm_max_retries (fst (run_sweeps backoff steps ?r1)) = rm_max_retries r
       \<and> rm_retry_count r \<le> rm_retry_count (fst (run_sweeps backoff steps ?r1))
       \<and> rm_retry_count (fst (run_sweeps backoff steps ?r1)) \<le> rm_max_retries r
       \<and> (rm_status (fst (run_sweeps backoff steps ?r1)) = pending
             \<longrightarrow> rm_retry_count (fst (run_sweeps backoff steps ?r1)) < rm_max_retries r)"
    by auto
  moreover have "fst (run_sweeps backoff (step # steps) r) = fst (run_sweeps backoff steps ?r1)"
    by (simp add: split_beta Let_def)
  ultimately show ?case by simp
qed

lemma run_sweeps_not_pending:
  "rm_status r \<noteq> pending \<Longrightarrow> run_sweeps backoff steps r = (r, 0)"
  by (induction steps) (simp_all add: sweep_reminder_def dispatch_due_def)

text \<open>
  C4 as stated fails for a reminder that allows no retry: with \<open>max_retries = 0\<close> the first
  failed dispatch already takes \<open>retry_count\<close> to 1, above \<open>max_retries\<close>.
\<close>

theorem reminder_retry_count_counterexample:
  "rm_max_retries
     (fst (run_sweeps (\<lambda>n. 60) [(10, DispatchFailure)]
        \<lparr> rm_related_id = ''i1'', rm_channel = email, rm_scheduled_at = 5, rm_sent_at = None,
          rm_status = pending, rm_retry_count = 0, rm_max_retries = 0 \<rparr>))
   < rm_retry_count
     (fst (run_sweeps (\<lambda>n. 60) [(10, DispatchFailure)]
        \<lparr> rm_related_id = ''i1'', rm_channel = email, rm_scheduled_at = 5, rm_sent_at = None,
          rm_status = pending, rm_retry_count = 0, rm_max_retries = 0 \<rparr>))"
  by (simp add: sweep_reminder_def dispatch_due_def record_dispatch_def)

text \<open>
  C4, amended: for every reminder with \<open>max_retries\<close> at least 1 whose \<open>retry_count\<close> is
  within \<open>max_retries\<close> and, while it is pending, below it (a freshly scheduled reminder
  is such), and for every sequence of sweeps: this stays so, \<open>retry_count\<close> never
  decreases and never exceeds \<open>max_retries\<close>; a sweep turns the status to \<open>failed\<close>
  exactly when it dispatches, the dispatch fails and \<open>retry_count\<close> thereby reaches
  \<open>max_retries\<close>; and once the reminder is cancelled, or failed with \<open>retry_count\<close> equal
  to \<open>max_retries\<close>, no sweep dispatches it, nothing changes, and the page offers no
  retry.
\<close>

theorem reminder_retry_bounded:
  assumes "0 < rm_max_retries r"
    and "rm_retry_count r \<le> rm_max_retries r"
    and "rm_status r = pending \<longrightarrow> rm_retry_count r < rm_max_retries r"
  shows "rm_max_retries (fst (run_sweeps backoff steps r)) = rm_max_retries r
       \<and> rm_retry_count r \<le> rm_retry_count (fst (run_sweeps backoff steps r))
       \<and> rm_retry_count (fst (run_sweeps backoff steps r)) \<le> rm_max_retries r
       \<and> (rm_status (fst (run_sweeps backoff steps r)) = pending
             \<longrightarrow> rm_retry_count (fst (run_sweeps backoff steps r)) < rm_max_retries r)
       \<and> ((rm_status (fst (sweep_reminder backoff step r)) = failed \<and> rm_status r \<noteq> failed)
            = (dispatch_due (fst step) r \<and> snd step = DispatchFailure
               \<and> rm_retry_count r + 1 = rm_max_retries r))
       \<and> (rm_status r = cancelled \<or> (rm_status r = failed \<and> rm_retry_count r = rm_max_retries r)
            \<longrightarrow> run_sweeps backoff steps r = (r, 0) \<and> \<not> retry_offered r)"
proof -
  have inv: "rm_max_retries (fst (run_sweeps backoff steps r)) = rm_max_retries r
       \<and> rm_retry_count r \<le> rm_retry_count (fst (run_sweeps backoff steps r))
       \<and> rm_retry_count (fst (run_sweeps backoff steps r)) \<le> rm_max_retries r
       \<and> (rm_status (fst (run_sweeps backoff steps r)) = pending
             \<longrightarrow> rm_retry_count (fst (run_sweeps backoff steps r)) < rm_max_retries r)"
    using run_sweeps_bounded [OF assms(2,3)] .
  have turn: "(rm_status (fst (sweep_reminder backoff step r)) = failed \<and> rm_status r \<noteq> failed)
            = (dispatch_due (fst step) r \<and> snd step = DispatchFailure
               \<and> rm_retry_count r + 1 = rm_max_retries r)"
    using assms(3)
    by (auto simp: sweep_reminder_def record_dispatch_def dispatch_due_def Let_def
        split: dispatch_result.splits)
  have stop: "run_sweeps backoff steps r = (r, 0) \<and> \<not> retry_offered r"
    if "rm_status r = cancelled \<or> (rm_status r = failed \<and> rm_retry_count r = rm_max_retries r)"
    using that assms(1) by (auto simp: run_sweeps_not_pending retry_offered_def)
  from inv turn stop show ?thesis by blast
qed

theorem reminder_retry_bounded_witness:
  "fst (run_sweeps (\<lambda>n. 60) [(10, DispatchFailure), (100, DispatchFailure), (200, DispatchFailure),
          (300, DispatchFailure)]
        \<lparr> rm_related_id = ''i1'', rm_channel = email, rm_scheduled_at = 5, rm_sent_at = None,
          rm_status = pending, rm_retry_count = 0, rm_max_retries = 3 \<rparr>)
   = \<lparr> rm_related_id = ''i1'', rm_channel = email, rm_scheduled_at = 160, rm_sent_at = None,
       rm_status = failed, rm_retry_count = 3, rm_max_retries = 3 \<rparr>
   \<and> snd (run_sweeps (\<lambda>n. 60) [(10, DispatchFailure), (100, DispatchFailure), (200, DispatchFailure),
          (300, DispatchFailure)]
        \<lparr> rm_related_id = ''i1'', rm_channel = email, rm_scheduled_at = 5, rm_sent_at = None,
          rm_status = pending, rm_retry_count = 0, rm_max_retries = 3 \<rparr>) = 3
   \<and> run_sweeps (\<lambda>n. 60) [(400, DispatchFailure)]
        \<lparr> rm_related_id = ''i1'', rm_channel = email, rm_scheduled_at = 160, rm_sent_at = None,
          rm_status = failed, rm_retry_count = 3, rm_max_retries = 3 \<rparr>
     = (\<lparr> rm_related_id = ''i1'', rm_channel = email, rm_scheduled_at = 160, rm_sent_at = None,
          rm_status = failed, rm_retry_count = 3, rm_max_retries = 3 \<rparr>, 0)"
  using reminder_retry_bounded
    [of "\<lparr> rm_related_id = ''i1'', rm_channel = email, rm_scheduled_at = 5, rm_sent_at = None,
          rm_status = pending, rm_retry_count = 0, rm_max_retries = 3 \<rparr>"
      "\<lambda>n. 60" "[(10, DispatchFailure), (100, DispatchFailure), (200, DispatchFailure),
          (300, DispatchFailure)]" "(10, DispatchFailure)"]
    reminder_retry_bounded
    [of "\<lparr> rm_related_id = ''i1'', rm_channel = email, rm_scheduled_at = 160, rm_sent_at = None,
          rm_status = failed, rm_retry_count = 3, rm_max_retries = 3 \<rparr>"
      "\<lambda>n. 60" "[(400, DispatchFailure)]" "(400, DispatchFailure)"]
  by (simp add: sweep_reminder_def dispatch_due_def record_dispatch_def)

subsection \<open>Request status\<close>

lemma request_item_transition_frame:
  "request_item_transition now act i r = Inr r' \<Longrightarrow>
     dr_sent_at r' = dr_sent_at r \<and> dr_cancelled r' = dr_cancelled r"
  by (auto simp: request_item_transition_def split: if_splits option.splits sum.splits)

lemma run_item_transitions_frame:
  "dr_sent_at (run_item_transitions evs r) = dr_sent_at r
   \<and> dr_cancelled (run_item_transitions evs r) = dr_cancelled r"
proof (induction evs arbitrary: r)
  case Nil
  show ?case by simp
next
  case (Cons ev evs)
  obtain now act i where ev: "ev = (now, act, i)"
    by (cases ev) auto
  show ?case
  proof (cases "request_item_transition now act i r")
    case (Inl e)
    with Cons.IH [of r] ev show ?thesis by simp
  next
    case (Inr r')
    with Cons.IH [of r'] ev request_item_transition_frame [OF Inr] show ?thesis by simp
  qed
qed

lemma derive_status_completed_iff:
  "dr_sent_at r \<noteq> None \<Longrightarrow> \<not> dr_cancelled r \<Longrightarrow>
     (derive_status r = completed) = all_mandatory_approved (dr_items r)"
  by (simp add: derive_status_def)

lemma all_mandatory_approved_iff:
  "all_mandatory_approved items =
     (\<forall>it\<in>set items. is_mandatory it \<longrightarrow> item_status it = item_approved)"
  by (auto simp: all_mandatory_approved_def list_all_iff)

lemma derive_status_view:
  assumes "dr_sent_at r = dr_sent_at r'" and "dr_cancelled r = dr_cancelled r'"
    and "map item_view (dr_items r) = map item_view (dr_items r')"
  shows "derive_status r = derive_status r'"
proof -
  have m: "list_all (\<lambda>it. if is_mandatory it then item_status it = item_approved else True) xs =
      list_all (\<lambda>v. if fst (snd v) then snd (snd v) = item_approved else True) (map item_view xs)"
    for xs by (simp add: list.pred_map item_view_def comp_def)
  have n: "list_all (\<lambda>it. item_status it = not_received) xs =
      list_all (\<lambda>v. snd (snd v) = not_received) (map item_view xs)"
    for xs by (simp add: list.pred_map item_view_def comp_def)
  show ?thesis
    using assms by (simp add: derive_status_def all_mandatory_approved_def m n)
qed

lemma find_item_unique:
  assumes "distinct (map item_id xs)" and "find (\<lambda>it. item_id it = i) xs = Some it"
    and "x \<in> set xs" and "item_id x = i"
  shows "x = it"
proof -
  from assms(2) have "it \<in> set xs" and "item_id it = i"
    by (auto simp: find_Some_iff)
  with assms(1,3,4) show ?thesis
    by (auto simp: distinct_map dest: inj_onD)
qed

lemma approve_step_items:
  assumes "distinct (map item_id (dr_items r))" and "\<not> dr_cancelled r"
  shows "dr_items (case request_item_transition now (approve rv) i r of Inl e \<Rightarrow> r | Inr r' \<Rightarrow> r') =
     map (\<lambda>x. if item_id x = i \<and> reviewable x
               then x\<lparr> item_status := item_approved, reviewed_at := Some now, reviewed_by := Some rv \<rparr>
               else x) (dr_items r)"
proof (cases "find (\<lambda>it. item_id it = i) (dr_items r)")
  case None
  then have "\<forall>x\<in>set (dr_items r). item_id x \<noteq> i"
    by (simp add: find_None_iff)
  then have "map (\<lambda>x. if item_id x = i \<and> reviewable x
               then x\<lparr> item_status := item_approved, reviewed_at := Some now, reviewed_by := Some rv \<rparr>
               else x) (dr_items r) = dr_items r"
    by (intro map_idI) auto
  with None assms(2) show ?thesis
    by (simp add: request_item_transition_def)
next
  case (Some it)
  have uniq: "x = it" if "x \<in> set (dr_items r)" "item_id x = i" for x
    using find_item_unique [OF assms(1) Some that] .
  show ?thesis
  proof (cases "reviewable it")
    case True
    have "map (\<lambda>x. if item_id x = i
            then it\<lparr> item_status := item_approved, reviewed_at := Some now, reviewed_by := Some rv \<rparr>
            else x) (dr_items r) =
          map (\<lambda>x. if item_id x = i \<and> reviewable x
            then x\<lparr> item_status := item_approved, reviewed_at := Some now, reviewed_by := Some rv \<rparr>
            else x) (dr_items r)"
      using uniq True by (intro map_cong) auto
    with Some True assms(2) show ?thesis
      by (simp add: request_item_transition_def)
  next
    case False
    have "map (\<lambda>x. if item_id x = i \<and> reviewable x
            then x\<lparr> item_status := item_approved, reviewed_at := Some now, reviewed_by := Some rv \<rparr>
            else x) (dr_items r) = dr_items r"
      using uniq False by (intro map_idI) auto
    with Some False assms(2) show ?thesis
      by (simp add: request_item_transition_def)
  qed
qed

lemma approve_step_frame:
  "dr_sent_at (case request_item_transition now act i r of Inl e \<Rightarrow> r | Inr r' \<Rightarrow> r') = dr_sent_at r
   \<and> dr_cancelled (case request_item_transition now act i r of Inl e \<Rightarrow> r | Inr r' \<Rightarrow> r') = dr_cancelled r"
  using request_item_transition_frame [of now act i r]
  by (cases "request_item_transition now act i r") auto

lemma run_approvals_view:
  assumes "distinct (map item_id (dr_items r))" and "\<not> dr_cancelled r"
  shows "map item_view (dr_items (run_item_transitions (map approval aps) r)) =
     map (\<lambda>x. (item_id x, is_mandatory x,
                if item_id x \<in> (\<lambda>a. snd (snd a)) ` set aps \<and> reviewable x
                then item_approved else item_status x)) (dr_items r)"
  using assms
proof (induction aps arbitrary: r)
  case Nil
  show ?case by (simp add: item_view_def)
next
  case (Cons a aps)
  obtain now rv i where a: "a = (now, rv, i)"
    by (cases a) auto
  let ?g = "\<lambda>x. if item_id x = i \<and> reviewable x
               then x\<lparr> item_status := item_approved, reviewed_at := Some now, reviewed_by := Some rv \<rparr>
               else x"
  let ?r1 = "case request_item_transition now (approve rv) i r of Inl e \<Rightarrow> r | Inr r' \<Rightarrow> r'"
  have items1: "dr_items ?r1 = map ?g (dr_items r)"
    using approve_step_items [OF Cons.prems] .
  have ids1: "map item_id (dr_items ?r1) = map item_id (dr_items r)"
    by (simp add: items1 comp_def)
  have d1: "distinct (map item_id (dr_items ?r1))"
    using Cons.prems(1) by (simp only: ids1)
  have c1: "\<not> dr_cancelled ?r1"
    using Cons.prems(2) approve_step_frame [where now = now and act = "approve rv" and i = i and r = r] by simp
  have run: "run_item_transitions (map approval (a # aps)) r = run_item_transitions (map approval aps) ?r1"
    by (simp add: a approval_def)
  have "map item_view (dr_items (run_item_transitions (map approval aps) ?r1)) =
     map (\<lambda>x. (item_id x, is_mandatory x,
                if item_id x \<in> (\<lambda>a. snd (snd a)) ` set aps \<and> reviewable x
                then item_approved else item_status x)) (map ?g (dr_items r))"
    using Cons.IH [OF d1 c1] by (simp only: items1)
  also have "\<dots> = map (\<lambda>x. (item_id x, is_mandatory x,
                if item_id x \<in> (\<lambda>a. snd (snd a)) ` set (a # aps) \<and> reviewable x
                then item_approved else item_status x)) (dr_items r)"
    by (auto simp: a reviewable_def)
  finally show ?case by (simp only: run)
qed
text \<open>
  The specification's second scenario: two mandatory items, one approved and one
  rejected; the request is in progress, not completed.
\<close>

lemma derive_status_one_approved_one_rejected:
  "derive_status
     \<lparr> dr_sent_at = Some 1, dr_cancelled = False, dr_enable_email = True,
       dr_enable_whatsapp = False, dr_enable_voice = False,
       dr_items = [\<lparr> item_id = ''A'', is_mandatory = True, item_status = item_approved,
                     submitted_at = Some 2, reviewed_at = Some 3, reviewed_by = Some ''u1'',
                     request_cycle = 0 \<rparr>,
                   \<lparr> item_id = ''B'', is_mandatory = True, item_status = item_rejected,
                     submitted_at = Some 2, reviewed_at = Some 4, reviewed_by = Some ''u1'',
                     request_cycle = 0 \<rparr>] \<rparr> = in_progress"
  by (simp add: derive_status_def all_mandatory_approved_def)

text \<open>
  C1 as stated fails for a request that was never sent: with no mandatory item (here a
  single optional one) every mandatory item is approved, yet the derived status is
  \<open>draft\<close>.
\<close>

theorem derive_status_draft_counterexample:
  "derive_status
     \<lparr> dr_sent_at = None, dr_cancelled = False, dr_enable_email = True,
       dr_enable_whatsapp = False, dr_enable_voice = False,
       dr_items = [\<lparr> item_id = ''i1'', is_mandatory = False, item_status = not_received,
                     submitted_at = None, reviewed_at = None, reviewed_by = None,
                     request_cycle = 0 \<rparr>] \<rparr> = draft
   \<and> all_mandatory_approved
       [\<lparr> item_id = ''i1'', is_mandatory = False, item_status = not_received,
          submitted_at = None, reviewed_at = None, reviewed_by = None, request_cycle = 0 \<rparr>]"
  by (simp add: derive_status_def all_mandatory_approved_def)

text \<open>
  C1, amended: for every data request that has been sent and not cancelled, and every
  sequence of checklist-item transitions, the derived status is \<open>completed\<close> if and only
  if every mandatory item is approved, whatever the states of the other items; and when
  the items have distinct ids, the derived status after a series of approvals is the same
  for every order in which they are made. (A request not yet sent derives \<open>draft\<close> and a
  cancelled one \<open>cancelled\<close>, whatever its items.)
\<close>

theorem derive_status_completed_iff_mandatory_approved:
  assumes "dr_sent_at r \<noteq> None" and "\<not> dr_cancelled r"
  shows "((derive_status (run_item_transitions evs r) = completed) =
            (\<forall>it\<in>set (dr_items (run_item_transitions evs r)).
               is_mandatory it \<longrightarrow> item_status it = item_approved))
       \<and> (distinct (map item_id (dr_items r)) \<and> mset aps' = mset aps \<longrightarrow>
            derive_status (run_item_transitions (map approval aps') r) =
            derive_status (run_item_transitions (map approval aps) r))"
proof -
  have frame: "dr_sent_at (run_item_transitions es r) \<noteq> None \<and> \<not> dr_cancelled (run_item_transitions es r)"
    for es using assms run_item_transitions_frame [of es r] by simp
  have iff: "(derive_status (run_item_transitions evs r) = completed) =
            (\<forall>it\<in>set (dr_items (run_item_transitions evs r)).
               is_mandatory it \<longrightarrow> item_status it = item_approved)"
    using frame [of evs]
    by (simp add: derive_status_completed_iff all_mandatory_approved_iff)
  have order: "derive_status (run_item_transitions (map approval aps') r) =
            derive_status (run_item_transitions (map approval aps) r)"
    if d: "distinct (map item_id (dr_items r))" and p: "mset aps' = mset aps"
  proof (rule derive_status_view)
    show "dr_sent_at (run_item_transitions (map approval aps') r) =
        dr_sent_at (run_item_transitions (map approval aps) r)"
      by (simp add: run_item_transitions_frame)
    show "dr_cancelled (run_item_transitions (map approval aps') r) =
        dr_cancelled (run_item_transitions (map approval aps) r)"
      by (simp add: run_item_transitions_frame)
    from p have "set aps' = set aps"
      by (rule mset_eq_setD)
    then show "map item_view (dr_items (run_item_transitions (map approval aps') r)) =
        map item_view (dr_items (run_item_transitions (map approval aps) r))"
      by (simp add: run_approvals_view [OF d assms(2)])
  qed
  from iff order show ?thesis by blast
qed

theorem derive_status_completed_iff_mandatory_approved_witness:
  "derive_status (run_item_transitions [(5, approve ''u1'', ''i1'')]
     \<lparr> dr_sent_at = Some 1, dr_cancelled = False, dr_enable_email = True,
       dr_enable_whatsapp = False, dr_enable_voice = False,
       dr_items = [\<lparr> item_id = ''i1'', is_mandatory = True, item_status = received,
                     submitted_at = Some 3, reviewed_at = None, reviewed_by = None,
                     request_cycle = 0 \<rparr>,
                   \<lparr> item_id = ''i2'', is_mandatory = False, item_status = not_received,
                     submitted_at = None, reviewed_at = None, reviewed_by = None,
                     request_cycle = 0 \<rparr>] \<rparr>) = completed
   \<and> derive_status (run_item_transitions (map approval [(6, ''u1'', ''i2''), (5, ''u1'', ''i1'')])
     \<lparr> dr_sent_at = Some 1, dr_cancelled = False, dr_enable_email = True,
       dr_enable_whatsapp = False, dr_enable_voice = False,
       dr_items = [\<lparr> item_id = ''i1'', is_mandatory = True, item_status = received,
                     submitted_at = Some 3, reviewed_at = None, reviewed_by = None,
                     request_cycle = 0 \<rparr>,
                   \<lparr> item_id = ''i2'', is_mandatory = False, item_status = not_received,
                     submitted_at = None, reviewed_at = None, reviewed_by = None,
                     request_cycle = 0 \<rparr>] \<rparr>)
     = derive_status (run_item_transitions (map approval [(5, ''u1'', ''i1''), (6, ''u1'', ''i2'')])
     \<lparr> dr_sent_at = Some 1, dr_cancelled = False, dr_enable_email = True,
       dr_enable_whatsapp = False, dr_enable_voice = False,
       dr_items = [\<lparr> item_id = ''i1'', is_mandatory = True, item_status = received,
                     submitted_at = Some 3, reviewed_at = None, reviewed_by = None,
                     request_cycle = 0 \<rparr>,
                   \<lparr> item_id = ''i2'', is_mandatory = False, item_status = not_received,
                     submitted_at = None, reviewed_at = None, reviewed_by = None,
                     request_cycle = 0 \<rparr>] \<rparr>)"
  using derive_status_completed_iff_mandatory_approved
    [of "\<lparr> dr_sent_at = Some 1, dr_cancelled = False, dr_enable_email = True,
       dr_enable_whatsapp = False, dr_enable_voice = False,
       dr_items = [\<lparr> item_id = ''i1'', is_mandatory = True, item_status = received,
                     submitted_at = Some 3, reviewed_at = None, reviewed_by = None,
                     request_cycle = 0 \<rparr>,
                   \<lparr> item_id = ''i2'', is_mandatory = False, item_status = not_received,
                     submitted_at = None, reviewed_at = None, reviewed_by = None,
                     request_cycle = 0 \<rparr>] \<rparr>"
      "[(5, approve ''u1'', ''i1'')]"
      "[(6, ''u1'', ''i2''), (5, ''u1'', ''i1'')]"
      "[(5, ''u1'', ''i1''), (6, ''u1'', ''i2'')]"]
  by (simp add: request_item_transition_def reviewable_def approval_def)

subsection \<open>Re-request\<close>



end
